theory Spec2Isabelle
  imports Complex_Main
begin

section \<open>Conventions of the embedding\<close>

text \<open>
  The development embeds the acquisition controller of \<^verbatim>\<open>mcc_daq.py\<close> (class
  \<^verbatim>\<open>DAQ\<close>) and the filter helpers of \<^verbatim>\<open>processor.py\<close> (class
  \<^verbatim>\<open>DataProcessor\<close>).

  \<^item> Python floats and numpy float arrays are real numbers and lists of reals: rounding is
    not modelled, so every statement about sample values is a statement about the exact
    values of the formulas the code evaluates.
  \<^item> An exception is a value of \<open>error\<close>; a method that can raise returns \<open>error + 'a\<close>.
  \<^item> A method that calls the vendor driver takes the controller object and the state of
    the hardware and returns its outcome together with both, so that what was assigned
    before an exception stays visible.
  \<^item> The vendor driver (\<^verbatim>\<open>uldaq\<close>), \<^verbatim>\<open>numpy\<close> and \<^verbatim>\<open>scipy\<close> are not
    part of the repository. The driver is the small state machine of section
    \<open>The driver\<close>: only its status read raises, when the hardware has reported an
    error, and no other call does; \<^verbatim>\<open>scipy.signal.butter\<close> and
    \<^verbatim>\<open>scipy.signal.filtfilt\<close> are parameters of the functions that call them.
  \<^item> \<^verbatim>\<open>print\<close> is not modelled.
\<close>

datatype error =
    RuntimeError string
  | ValueError string
  | AttributeError string
  | ZeroDivisionError
  | ULException

text \<open>The exception Python raises when an attribute \<open>name\<close> is looked up on \<^verbatim>\<open>None\<close>.\<close>

definition NoneType_attribute :: "string \<Rightarrow> error" where
  "NoneType_attribute name =
     AttributeError (CHR 0x27 # ''NoneType'' @ CHR 0x27 # '' object has no attribute '' @
                     CHR 0x27 # name @ [CHR 0x27])"

section \<open>The driver\<close>

text \<open>The members of the driver's enumerations that the source names.\<close>

datatype InterfaceType = USB
datatype AiInputMode = SINGLE_ENDED
datatype Range = BIP10VOLTS
datatype ScanOption = CONTINUOUS
datatype AInScanFlag = AIN_DEFAULT
datatype AOutScanFlag = AOUT_DEFAULT

text \<open>The driver's \<^verbatim>\<open>ScanStatus\<close> has the two members the source names.\<close>

datatype ScanStatus = IDLE | RUNNING

text \<open>The progress counters that the driver returns next to the status of a scan.\<close>

record TransferStatus =
  current_scan_count :: int
  current_total_count :: int
  current_index :: int

text \<open>
  The values that the source compares with \<^verbatim>\<open>==\<close>: a member of the enumeration, as
  the source writes \<^verbatim>\<open>ScanStatus.RUNNING\<close>, and the tuple of status and progress
  counters that \<^verbatim>\<open>get_scan_status()\<close> returns. A tuple and a member are never equal
  in Python, as the two constructors are never equal here.
\<close>

datatype status_value =
    Member ScanStatus
  | StatusTuple ScanStatus TransferStatus

datatype AiInfo = AiInfo (ai_has_pacer: bool)
datatype AoInfo = AoInfo (ao_has_pacer: bool)
datatype AiDevice = AiDevice (ai_get_info: AiInfo)
datatype AoDevice = AoDevice (ao_get_info: AoInfo)

text \<open>
  A descriptor of the inventory, with what the device made from it answers to
  \<^verbatim>\<open>get_ai_device()\<close> and \<^verbatim>\<open>get_ao_device()\<close>: \<open>None\<close> when the device has no
  such subsystem.
\<close>

record DaqDeviceDescriptor =
  dev_string :: string
  ai_subsystem :: "AiDevice option"
  ao_subsystem :: "AoDevice option"

datatype DaqDevice = DaqDevice (get_descriptor: DaqDeviceDescriptor)

definition get_ai_device :: "DaqDevice \<Rightarrow> AiDevice option" where
  "get_ai_device d = ai_subsystem (get_descriptor d)"

definition get_ao_device :: "DaqDevice \<Rightarrow> AoDevice option" where
  "get_ao_device d = ao_subsystem (get_descriptor d)"

text \<open>
  The state of the hardware behind the driver: the inventory that
  \<^verbatim>\<open>get_daq_device_inventory\<close> returns, whether a connection attempt gets through,
  the connection and release flags of the device handle, the scan status and the progress
  counters of each direction, whether the scan of a direction has run into a hardware error
  (an overrun of the input, an underrun of the output), and the rate each pacer reports back
  when a scan is started.
\<close>

record hardware =
  inventory :: "DaqDeviceDescriptor list"
  link_up :: bool
  connected :: bool
  released :: bool
  ai_scan_status :: ScanStatus
  ao_scan_status :: ScanStatus
  ai_transfer_status :: TransferStatus
  ao_transfer_status :: TransferStatus
  ai_scan_error :: bool
  ao_scan_error :: bool
  ai_pacer_rate :: real
  ao_pacer_rate :: real

definition get_daq_device_inventory :: "InterfaceType \<Rightarrow> hardware \<Rightarrow> DaqDeviceDescriptor list" where
  "get_daq_device_inventory interface_type hw = inventory hw"

definition connect :: "hardware \<Rightarrow> hardware" where
  "connect hw = hw\<lparr>connected := link_up hw\<rparr>"

definition is_connected :: "hardware \<Rightarrow> bool" where
  "is_connected hw = connected hw"

definition disconnect :: "hardware \<Rightarrow> hardware" where
  "disconnect hw = hw\<lparr>connected := False\<rparr>"

definition release :: "hardware \<Rightarrow> hardware" where
  "release hw = hw\<lparr>released := True\<rparr>"

text \<open>
  \<^verbatim>\<open>get_scan_status()\<close> of a subsystem: the tuple of the scan status and the progress
  counters; the driver raises its exception when the hardware has reported an error.
\<close>

definition ai_get_scan_status :: "hardware \<Rightarrow> error + status_value" where
  "ai_get_scan_status hw =
     (if ai_scan_error hw then Inl ULException
      else Inr (StatusTuple (ai_scan_status hw) (ai_transfer_status hw)))"

definition ao_get_scan_status :: "hardware \<Rightarrow> error + status_value" where
  "ao_get_scan_status hw =
     (if ao_scan_error hw then Inl ULException
      else Inr (StatusTuple (ao_scan_status hw) (ao_transfer_status hw)))"

definition ai_scan_stop :: "hardware \<Rightarrow> hardware" where
  "ai_scan_stop hw = hw\<lparr>ai_scan_status := IDLE\<rparr>"

definition ao_scan_stop :: "hardware \<Rightarrow> hardware" where
  "ao_scan_stop hw = hw\<lparr>ao_scan_status := IDLE\<rparr>"

definition a_in_scan :: "hardware \<Rightarrow> real \<times> hardware" where
  "a_in_scan hw = (ai_pacer_rate hw, hw\<lparr>ai_scan_status := RUNNING\<rparr>)"

definition a_out_scan :: "hardware \<Rightarrow> real \<times> hardware" where
  "a_out_scan hw = (ao_pacer_rate hw, hw\<lparr>ao_scan_status := RUNNING\<rparr>)"

text \<open>
  \<^verbatim>\<open>create_float_buffer(number_of_channels, samples_per_channel)\<close>: a zeroed array of
  doubles with one cell per channel and sample; an array cannot have a negative length.
\<close>

definition create_float_buffer :: "int \<Rightarrow> int \<Rightarrow> error + real list" where
  "create_float_buffer number_of_channels samples_per_channel =
     (if number_of_channels * samples_per_channel < 0
      then Inl (ValueError ''Array length must be >= 0'')
      else Inr (replicate (nat (number_of_channels * samples_per_channel)) 0))"

section \<open>numpy\<close>

text \<open>
  \<^verbatim>\<open>np.linspace(start, stop, num, endpoint=False)\<close>: \<open>num\<close> samples
  \<open>start + k * step\<close> with \<open>step = (stop - start) / num\<close>; a negative \<open>num\<close> is
  refused.
\<close>

definition linspace :: "real \<Rightarrow> real \<Rightarrow> int \<Rightarrow> error + real list" where
  "linspace start stop num =
     (if num < 0 then Inl (ValueError ''Number of samples must be non-negative.'')
      else Inr (map (\<lambda>k. real k * ((stop - start) / real_of_int num) + start) [0..<nat num]))"

text \<open>
  \<^verbatim>\<open>np.copyto(dst, src)\<close> on one-dimensional arrays: the source is copied when the
  lengths agree, a single value is broadcast over the whole destination, and any other
  length is refused. The result is the new content of \<open>dst\<close>.
\<close>

definition copyto :: "real list \<Rightarrow> real list \<Rightarrow> error + real list" where
  "copyto dst src =
     (if length src = length dst then Inr src
      else if length src = 1 then Inr (replicate (length dst) (src ! 0))
      else Inl (ValueError ''could not broadcast input array''))"

text \<open>\<^verbatim>\<open>np.mean\<close>; the mean of an empty array is not a number.\<close>

definition np_mean :: "real list \<Rightarrow> real option" where
  "np_mean xs = (if xs = [] then None else Some (sum_list xs / real (length xs)))"

section \<open>The controller\<close>

record AiConfig =
  ai_mode :: AiInputMode
  ai_channel :: int
  ai_voltage_range :: Range
  ai_sample_rate :: real
  ai_samples_per_channel :: int
  ai_scan_operation :: ScanOption
  ai_scan_flag :: AInScanFlag

record AoConfig =
  ao_channel :: int
  ao_voltage_range :: Range
  ao_sample_rate :: real
  ao_samples_per_channel :: int
  ao_scan_operation :: ScanOption
  ao_scan_flag :: AOutScanFlag

text \<open>
  The attributes of a \<^verbatim>\<open>DAQ\<close> object. The two configuration dictionaries have fixed
  keys, so each is a record with one field per key.
\<close>

record DAQ =
  daq_device :: "DaqDevice option"
  ai_device :: "AiDevice option"
  ao_device :: "AoDevice option"
  ai_info :: "AiInfo option"
  ao_info :: "AoInfo option"
  status :: ScanStatus
  actual_in_rate :: real
  actual_out_rate :: real
  buffer_in :: "real list option"
  buffer_out :: "real list option"
  input_average :: real
  analog_input_map :: AiConfig
  analog_output_map :: AoConfig

definition INTERFACE_TYPE :: InterfaceType where
  "INTERFACE_TYPE = USB"

text \<open>The attributes that \<^verbatim>\<open>__init__\<close> assigns before it calls \<^verbatim>\<open>initDAQ\<close>.\<close>

definition DAQ_attributes :: DAQ where
  "DAQ_attributes =
     \<lparr>daq_device = None, ai_device = None, ao_device = None, ai_info = None, ao_info = None,
      status = IDLE, actual_in_rate = 0, actual_out_rate = 0, buffer_in = None,
      buffer_out = None, input_average = 0,
      analog_input_map =
        \<lparr>ai_mode = SINGLE_ENDED, ai_channel = 1, ai_voltage_range = BIP10VOLTS,
         ai_sample_rate = 1000, ai_samples_per_channel = 10000,
         ai_scan_operation = CONTINUOUS, ai_scan_flag = AIN_DEFAULT\<rparr>,
      analog_output_map =
        \<lparr>ao_channel = 1, ao_voltage_range = BIP10VOLTS, ao_sample_rate = 1000,
         ao_samples_per_channel = 10000, ao_scan_operation = CONTINUOUS,
         ao_scan_flag = AOUT_DEFAULT\<rparr>\<rparr>"

definition initDAQ :: "DAQ \<Rightarrow> hardware \<Rightarrow> (error + unit) \<times> DAQ \<times> hardware" where
  "initDAQ self hw =
     (let devices = get_daq_device_inventory INTERFACE_TYPE hw;
          number_of_devices = length devices
      in if number_of_devices = 0
         then (Inl (RuntimeError ''Error: No DAQ devices found''), self, hw)
         else if number_of_devices > 1
         then (Inl (RuntimeError ''Error: More than one DAQ device found.''), self, hw)
         else
           let self1 = self\<lparr>daq_device := Some (DaqDevice (devices ! 0))\<rparr>;
               self2 = self1\<lparr>ai_device := get_ai_device (DaqDevice (devices ! 0))\<rparr>;
               self3 = self2\<lparr>ao_device := get_ao_device (DaqDevice (devices ! 0))\<rparr>
           in case ai_device self3 of
                None \<Rightarrow>
                  (Inl (RuntimeError ''Error: The DAQ device does not support analog input''),
                   self3, hw)
              | Some ai \<Rightarrow>
                 (case ao_device self3 of
                    None \<Rightarrow>
                      (Inl (RuntimeError ''Error: The DAQ device does not support analog output''),
                       self3, hw)
                  | Some ao \<Rightarrow>
                     (let self4 = self3\<lparr>ai_info := Some (ai_get_info ai)\<rparr>;
                          self5 = self4\<lparr>ao_info := Some (ao_get_info ao)\<rparr>
                      in if \<not> ai_has_pacer (ai_get_info ai)
                         then (Inl (RuntimeError (CHR 0x0A #
                                 ''Error: The specified DAQ device does not support hardware paced analog input'')),
                               self5, hw)
                         else if \<not> ao_has_pacer (ao_get_info ao)
                         then (Inl (RuntimeError
                                 ''Error: The DAQ device does not support paced analog output''),
                               self5, hw)
                         else
                           let hw1 = connect hw
                           in if \<not> is_connected hw1
                              then (Inl (RuntimeError ''Error: The DAQ device is not connected''),
                                    self5, hw1)
                              else (Inr (), self5, hw1))))"

text \<open>\<^verbatim>\<open>DAQ()\<close>: the constructor ends with the call of \<^verbatim>\<open>initDAQ\<close>.\<close>

definition DAQ_init :: "hardware \<Rightarrow> (error + unit) \<times> DAQ \<times> hardware" where
  "DAQ_init hw = initDAQ DAQ_attributes hw"

definition generate_waveform :: "DAQ \<Rightarrow> string \<Rightarrow> real \<Rightarrow> real \<Rightarrow> error + real list" where
  "generate_waveform self waveform_type amplitude offset =
     (let samples_per_channel = ao_samples_per_channel (analog_output_map self)
      in case linspace 0 (2 * pi) samples_per_channel of
           Inl e \<Rightarrow> Inl e
         | Inr t \<Rightarrow>
            if waveform_type = ''sine''
            then Inr (map (\<lambda>x. amplitude * sin x + offset) t)
            else if waveform_type = ''triangle''
            then Inr (map (\<lambda>x. amplitude * 2 * (x / pi - of_int \<lfloor>x / pi + 0.5\<rfloor>) + offset) t)
            else Inl (ValueError ''Unsupported waveform type''))"

definition start_input_thread :: "DAQ \<Rightarrow> hardware \<Rightarrow> (error + unit) \<times> DAQ \<times> hardware" where
  "start_input_thread self hw =
     (let samples_per_channel = ai_samples_per_channel (analog_input_map self)
      in case create_float_buffer 1 samples_per_channel of
           Inl e \<Rightarrow> (Inl e, self, hw)
         | Inr buf \<Rightarrow>
            (let self1 = self\<lparr>buffer_in := Some buf\<rparr>
             in case ai_device self1 of
                  None \<Rightarrow> (Inl (NoneType_attribute ''a_in_scan''), self1, hw)
                | Some ai \<Rightarrow>
                   (let (rate, hw1) = a_in_scan hw
                    in (Inr (), self1\<lparr>actual_in_rate := rate\<rparr>, hw1))))"

text \<open>
  The argument is the array after \<^verbatim>\<open>flatten()\<close>. The copy writes through a view of
  the new buffer, so \<^verbatim>\<open>buffer_out\<close> holds the copied samples afterwards, and the
  zeroed buffer when the copy is refused.
\<close>

definition start_output_thread ::
  "real list \<Rightarrow> DAQ \<Rightarrow> hardware \<Rightarrow> (error + unit) \<times> DAQ \<times> hardware" where
  "start_output_thread waveform self hw =
     (let samples_per_channel = ao_samples_per_channel (analog_output_map self)
      in case create_float_buffer 1 samples_per_channel of
           Inl e \<Rightarrow> (Inl e, self, hw)
         | Inr buf \<Rightarrow>
            (let self1 = self\<lparr>buffer_out := Some buf\<rparr>
             in case copyto buf waveform of
                  Inl e \<Rightarrow> (Inl e, self1, hw)
                | Inr buffer_np \<Rightarrow>
                   (let self2 = self1\<lparr>buffer_out := Some buffer_np\<rparr>
                    in case ao_device self2 of
                         None \<Rightarrow> (Inl (NoneType_attribute ''a_out_scan''), self2, hw)
                       | Some ao \<Rightarrow>
                          (let (rate, hw1) = a_out_scan hw
                           in (Inr (), self2\<lparr>actual_out_rate := rate\<rparr>, hw1)))))"

definition check_input_thread :: "DAQ \<Rightarrow> hardware \<Rightarrow> (error + bool) \<times> DAQ \<times> hardware" where
  "check_input_thread self hw =
     (case ai_device self of
        None \<Rightarrow> (Inl (NoneType_attribute ''get_scan_status''), self, hw)
      | Some ai \<Rightarrow>
         (case ai_get_scan_status hw of
            Inl e \<Rightarrow> (Inl e, self, hw)
          | Inr scan_status \<Rightarrow>
             if scan_status = Member RUNNING then (Inr True, self, hw)
             else (Inr False, self, hw)))"

definition check_output_thread :: "DAQ \<Rightarrow> hardware \<Rightarrow> (error + bool) \<times> DAQ \<times> hardware" where
  "check_output_thread self hw =
     (case ao_device self of
        None \<Rightarrow> (Inl (NoneType_attribute ''get_scan_status''), self, hw)
      | Some ao \<Rightarrow>
         (case ao_get_scan_status hw of
            Inl e \<Rightarrow> (Inl e, self, hw)
          | Inr scan_status \<Rightarrow>
             if scan_status = Member RUNNING then (Inr True, self, hw)
             else (Inr False, self, hw)))"

text \<open>
  \<^verbatim>\<open>close_DAQ\<close> tests \<^verbatim>\<open>self.daq_device\<close> only; the two status reads that follow
  go through \<^verbatim>\<open>self.ai_device\<close> and \<^verbatim>\<open>self.ao_device\<close>, in that order.
\<close>

definition close_DAQ :: "DAQ \<Rightarrow> hardware \<Rightarrow> (error + unit) \<times> DAQ \<times> hardware" where
  "close_DAQ self hw =
     (case daq_device self of
        None \<Rightarrow> (Inr (), self, hw)
      | Some dev \<Rightarrow>
         (case ai_device self of
            None \<Rightarrow> (Inl (NoneType_attribute ''get_scan_status''), self, hw)
          | Some ai \<Rightarrow>
             (case ai_get_scan_status hw of
                Inl e \<Rightarrow> (Inl e, self, hw)
              | Inr in_status \<Rightarrow>
                 (case ao_device self of
                    None \<Rightarrow> (Inl (NoneType_attribute ''get_scan_status''), self, hw)
                  | Some ao \<Rightarrow>
                     (case ao_get_scan_status hw of
                        Inl e \<Rightarrow> (Inl e, self, hw)
                      | Inr out_status \<Rightarrow>
                         (let hw1 = (if Member RUNNING = in_status then ai_scan_stop hw else hw);
                              hw2 = (if Member RUNNING = out_status then ao_scan_stop hw1
                                     else hw1);
                              hw3 = (if is_connected hw2 then disconnect hw2 else hw2)
                          in (Inr (), self, release hw3)))))))"

text \<open>\<^verbatim>\<open>__del__\<close>: what the interpreter runs when the object is reclaimed.\<close>

definition DAQ_del :: "DAQ \<Rightarrow> hardware \<Rightarrow> (error + unit) \<times> DAQ \<times> hardware" where
  "DAQ_del self hw = close_DAQ self hw"

section \<open>The filter helpers\<close>

text \<open>
  The second argument of \<^verbatim>\<open>scipy.signal.butter\<close> as the source passes it: one
  number, or the two-element list of a band.
\<close>

datatype Wn = Scalar real | Band real real

type_synonym coefficients = "real list \<times> real list"

text \<open>
  \<^verbatim>\<open>butter(N, Wn, btype, analog)\<close> and \<^verbatim>\<open>filtfilt(b, a, x)\<close>: the library
  routines, parameters of everything below.
\<close>

type_synonym butter_fn = "int \<Rightarrow> Wn \<Rightarrow> string \<Rightarrow> bool \<Rightarrow> error + coefficients"
type_synonym filtfilt_fn = "real list \<Rightarrow> real list \<Rightarrow> real list \<Rightarrow> error + real list"

text \<open>Dividing by a float that is zero raises.\<close>

definition butter_lowpass :: "butter_fn \<Rightarrow> real \<Rightarrow> real \<Rightarrow> int \<Rightarrow> error + coefficients" where
  "butter_lowpass butter cutoff fs order =
     (let nyquist = 0.5 * fs
      in if nyquist = 0 then Inl ZeroDivisionError
         else let normal_cutoff = cutoff / nyquist
              in butter order (Scalar normal_cutoff) ''low'' False)"

definition butter_highpass :: "butter_fn \<Rightarrow> real \<Rightarrow> real \<Rightarrow> int \<Rightarrow> error + coefficients" where
  "butter_highpass butter cutoff fs order =
     (let nyquist = 0.5 * fs
      in if nyquist = 0 then Inl ZeroDivisionError
         else let normal_cutoff = cutoff / nyquist
              in butter order (Scalar normal_cutoff) ''high'' False)"

definition butter_bandpass ::
  "butter_fn \<Rightarrow> real \<Rightarrow> real \<Rightarrow> real \<Rightarrow> int \<Rightarrow> error + coefficients" where
  "butter_bandpass butter lowcut highcut fs order =
     (let nyquist = 0.5 * fs
      in if nyquist = 0 then Inl ZeroDivisionError
         else let low = lowcut / nyquist;
                  high = highcut / nyquist
              in butter order (Band low high) ''band'' False)"

definition apply_filter :: "filtfilt_fn \<Rightarrow> real list \<Rightarrow> real list \<Rightarrow> real list \<Rightarrow> error + real list" where
  "apply_filter filtfilt b a buffer_in' = filtfilt b a buffer_in'"

definition lowpass_filter ::
  "butter_fn \<Rightarrow> filtfilt_fn \<Rightarrow> real \<Rightarrow> real list \<Rightarrow> real \<Rightarrow> int \<Rightarrow> error + real list" where
  "lowpass_filter butter filtfilt cutoff buffer_in' fs order =
     (case butter_lowpass butter cutoff fs order of
        Inl e \<Rightarrow> Inl e
      | Inr (b, a) \<Rightarrow> apply_filter filtfilt b a buffer_in')"

definition highpass_filter ::
  "butter_fn \<Rightarrow> filtfilt_fn \<Rightarrow> real \<Rightarrow> real list \<Rightarrow> real \<Rightarrow> int \<Rightarrow> error + real list" where
  "highpass_filter butter filtfilt cutoff buffer_in' fs order =
     (case butter_highpass butter cutoff fs order of
        Inl e \<Rightarrow> Inl e
      | Inr (b, a) \<Rightarrow> apply_filter filtfilt b a buffer_in')"

definition bandpass_filter ::
  "butter_fn \<Rightarrow> filtfilt_fn \<Rightarrow> real \<Rightarrow> real \<Rightarrow> real list \<Rightarrow> real \<Rightarrow> int \<Rightarrow> error + real list" where
  "bandpass_filter butter filtfilt lowcut highcut buffer_in' fs order =
     (case butter_bandpass butter lowcut highcut fs order of
        Inl e \<Rightarrow> Inl e
      | Inr (b, a) \<Rightarrow> apply_filter filtfilt b a buffer_in')"

section \<open>The specification's vocabulary\<close>

text \<open>
  The specification's normalisation of a cutoff: \<open>normalized = cutoff / nyquist\<close> with
  \<open>nyquist = samplingRate / 2\<close>.
\<close>

definition nyquist_normalized :: "real \<Rightarrow> real \<Rightarrow> real" where
  "nyquist_normalized cutoff samplingRate = cutoff / (samplingRate / 2)"

text \<open>
  The specification's two-step form of a convenience filter: the outcome of the design,
  followed by the application of the designed coefficients to the samples.
\<close>

definition design_then_apply ::
  "error + coefficients \<Rightarrow> filtfilt_fn \<Rightarrow> real list \<Rightarrow> error + real list" where
  "design_then_apply designed filtfilt samples =
     (case designed of
        Inl e \<Rightarrow> Inl e
      | Inr c \<Rightarrow> apply_filter filtfilt (fst c) (snd c) samples)"

section \<open>Example states\<close>

text \<open>A device with both paced subsystems, one without a pacer on its input, and one with
  no analog input at all.\<close>

definition paced_device :: DaqDeviceDescriptor where
  "paced_device =
     \<lparr>dev_string = ''bench device A'', ai_subsystem = Some (AiDevice (AiInfo True)),
      ao_subsystem = Some (AoDevice (AoInfo True))\<rparr>"

definition unpaced_input_device :: DaqDeviceDescriptor where
  "unpaced_input_device =
     \<lparr>dev_string = ''bench device B'', ai_subsystem = Some (AiDevice (AiInfo False)),
      ao_subsystem = Some (AoDevice (AoInfo True))\<rparr>"

definition unpaced_output_device :: DaqDeviceDescriptor where
  "unpaced_output_device =
     \<lparr>dev_string = ''bench device C'', ai_subsystem = Some (AiDevice (AiInfo True)),
      ao_subsystem = Some (AoDevice (AoInfo False))\<rparr>"

definition output_only_device :: DaqDeviceDescriptor where
  "output_only_device =
     \<lparr>dev_string = ''bench device D'', ai_subsystem = None,
      ao_subsystem = Some (AoDevice (AoInfo True))\<rparr>"

text \<open>Hardware at rest, with the given inventory and link.\<close>

definition bench :: "DaqDeviceDescriptor list \<Rightarrow> bool \<Rightarrow> hardware" where
  "bench devices up =
     \<lparr>inventory = devices, link_up = up, connected = False, released = False,
      ai_scan_status = IDLE, ao_scan_status = IDLE,
      ai_transfer_status =
        \<lparr>current_scan_count = 0, current_total_count = 0, current_index = -1\<rparr>,
      ao_transfer_status =
        \<lparr>current_scan_count = 0, current_total_count = 0, current_index = -1\<rparr>,
      ai_scan_error = False, ao_scan_error = False,
      ai_pacer_rate = 1000, ao_pacer_rate = 1000\<rparr>"

text \<open>The controller and the hardware after a successful construction.\<close>

definition daq_ready :: DAQ where
  "daq_ready = fst (snd (DAQ_init (bench [paced_device] True)))"

definition hw_ready :: hardware where
  "hw_ready = snd (snd (DAQ_init (bench [paced_device] True)))"

text \<open>A controller before \<^verbatim>\<open>initDAQ\<close> whose output configuration asks for \<open>n\<close>
  samples per channel.\<close>

definition daq_with_samples :: "int \<Rightarrow> DAQ" where
  "daq_with_samples n =
     DAQ_attributes\<lparr>analog_output_map :=
       (analog_output_map DAQ_attributes)\<lparr>ao_samples_per_channel := n\<rparr>\<rparr>"

text \<open>The controller and the hardware once the input scan has been started.\<close>

definition daq_scanning :: DAQ where
  "daq_scanning = fst (snd (start_input_thread daq_ready hw_ready))"

definition hw_scanning :: hardware where
  "hw_scanning = snd (snd (start_input_thread daq_ready hw_ready))"

text \<open>The controller and the hardware after a construction that failed on a device
  without analog input.\<close>

definition daq_half_built :: DAQ where
  "daq_half_built = fst (snd (DAQ_init (bench [output_only_device] True)))"

definition hw_half_built :: hardware where
  "hw_half_built = snd (snd (DAQ_init (bench [output_only_device] True)))"

text \<open>
  A design routine used where a closed example needs one. It refuses every argument that
  a digital Butterworth design of positive order cannot have (an order below one, a
  critical frequency outside the open interval from 0 to 1, band edges that do not
  increase) and returns the coefficients of the identity filter in place of the designed
  ones.
\<close>

definition butter_strict :: butter_fn where
  "butter_strict N W btype analog =
     (if N < 1 then Inl (ValueError ''Filter order must be a positive integer'')
      else case W of
             Scalar w \<Rightarrow>
               if 0 < w \<and> w < 1 then Inr ([1], [1])
               else Inl (ValueError ''Digital filter critical frequencies must be 0 < Wn < 1'')
           | Band lo hi \<Rightarrow>
               if 0 < lo \<and> lo < hi \<and> hi < 1 then Inr ([1], [1])
               else Inl (ValueError ''Digital filter critical frequencies must be 0 < Wn < 1''))"

section \<open>Construction and shutdown\<close>

lemma DAQ_init_ready:
  "DAQ_init (bench [paced_device] True) = (Inr (), daq_ready, hw_ready)"
  by (simp add: daq_ready_def hw_ready_def DAQ_init_def initDAQ_def bench_def paced_device_def
      get_daq_device_inventory_def get_ai_device_def get_ao_device_def connect_def
      is_connected_def Let_def)

lemma daq_ready_devices:
  "daq_device daq_ready = Some (DaqDevice paced_device)
   \<and> ai_device daq_ready = Some (AiDevice (AiInfo True))
   \<and> ao_device daq_ready = Some (AoDevice (AoInfo True))
   \<and> status daq_ready = IDLE
   \<and> analog_output_map daq_ready = analog_output_map DAQ_attributes"
  by (simp add: daq_ready_def DAQ_init_def initDAQ_def bench_def paced_device_def
      get_daq_device_inventory_def get_ai_device_def get_ao_device_def connect_def
      is_connected_def DAQ_attributes_def Let_def)

lemma hw_ready_eq: "hw_ready = (bench [paced_device] True)\<lparr>connected := True\<rparr>"
  by (simp add: hw_ready_def DAQ_init_def initDAQ_def bench_def paced_device_def
      get_daq_device_inventory_def get_ai_device_def get_ao_device_def connect_def
      is_connected_def Let_def)

lemma close_DAQ_unset:
  "daq_device self = None \<Longrightarrow> close_DAQ self hw = (Inr (), self, hw)"
  by (simp add: close_DAQ_def)

text \<open>
  On a controller with all three objects set and no hardware error pending, shutdown
  completes, disconnects and releases. The status tuples never equal
  \<^verbatim>\<open>ScanStatus.RUNNING\<close>, so no scan is stopped: both statuses are left as they were.
\<close>

lemma close_DAQ_built:
  assumes "daq_device self = Some dev" "ai_device self = Some ai" "ao_device self = Some ao"
      and "\<not> ai_scan_error hw" "\<not> ao_scan_error hw"
  shows "fst (close_DAQ self hw) = Inr ()"
    and "fst (snd (close_DAQ self hw)) = self"
    and "released (snd (snd (close_DAQ self hw)))"
    and "\<not> connected (snd (snd (close_DAQ self hw)))"
    and "ai_scan_status (snd (snd (close_DAQ self hw))) = ai_scan_status hw"
    and "ao_scan_status (snd (snd (close_DAQ self hw))) = ao_scan_status hw"
  using assms
  by (simp_all add: close_DAQ_def Let_def release_def disconnect_def is_connected_def
      ai_get_scan_status_def ao_get_scan_status_def)

text \<open>A hardware error pending on the input makes shutdown raise before it releases.\<close>

lemma close_DAQ_scan_error:
  "daq_device self = Some dev \<Longrightarrow> ai_device self = Some ai \<Longrightarrow> ai_scan_error hw \<Longrightarrow>
   close_DAQ self hw = (Inl ULException, self, hw)"
  by (simp add: close_DAQ_def ai_get_scan_status_def)

lemma close_DAQ_needs_ai_device:
  "daq_device self = Some dev \<Longrightarrow> ai_device self = None \<Longrightarrow>
   close_DAQ self hw = (Inl (NoneType_attribute ''get_scan_status''), self, hw)"
  by (simp add: close_DAQ_def)

lemma close_DAQ_needs_ao_device:
  "daq_device self = Some dev \<Longrightarrow> ai_device self = Some ai \<Longrightarrow> \<not> ai_scan_error hw \<Longrightarrow>
   ao_device self = None \<Longrightarrow>
   close_DAQ self hw = (Inl (NoneType_attribute ''get_scan_status''), self, hw)"
  by (simp add: close_DAQ_def ai_get_scan_status_def)

text \<open>
  C1. Shutdown is claimed to complete without raising from every state of the controller,
  the state after a partially failed initialisation included. The construction below fails
  on a device without analog input, after \<^verbatim>\<open>daq_device\<close> has been assigned and with
  \<^verbatim>\<open>ai_device\<close> still \<^verbatim>\<open>None\<close>. In that state \<^verbatim>\<open>close_DAQ\<close>, as the
  destructor calls it, raises on the first status read, and the device handle is neither
  disconnected nor released.
\<close>

theorem close_DAQ_raises_after_failed_init:
  "DAQ_init (bench [output_only_device] True) =
     (Inl (RuntimeError ''Error: The DAQ device does not support analog input''),
      daq_half_built, hw_half_built)
   \<and> daq_device daq_half_built = Some (DaqDevice output_only_device)
   \<and> ai_device daq_half_built = None
   \<and> DAQ_del daq_half_built hw_half_built =
       (Inl (NoneType_attribute ''get_scan_status''), daq_half_built, hw_half_built)
   \<and> released hw_half_built = False"
  by (simp add: daq_half_built_def hw_half_built_def DAQ_init_def DAQ_del_def initDAQ_def
      close_DAQ_def bench_def output_only_device_def get_daq_device_inventory_def
      get_ai_device_def get_ao_device_def Let_def)

text \<open>
  What \<^verbatim>\<open>initDAQ\<close> answers on an inventory of exactly one device, read off the
  order of its checks: the two subsystems, the two pacers, then the connection.
\<close>

lemma initDAQ_single_device:
  assumes "inventory hw = [d]"
  shows "fst (initDAQ self hw) =
     (case ai_subsystem d of
        None \<Rightarrow> Inl (RuntimeError ''Error: The DAQ device does not support analog input'')
      | Some ai \<Rightarrow>
         (case ao_subsystem d of
            None \<Rightarrow> Inl (RuntimeError ''Error: The DAQ device does not support analog output'')
          | Some ao \<Rightarrow>
             if \<not> ai_has_pacer (ai_get_info ai)
             then Inl (RuntimeError (CHR 0x0A #
                    ''Error: The specified DAQ device does not support hardware paced analog input''))
             else if \<not> ao_has_pacer (ao_get_info ao)
             then Inl (RuntimeError ''Error: The DAQ device does not support paced analog output'')
             else if \<not> is_connected (connect hw)
             then Inl (RuntimeError ''Error: The DAQ device is not connected'')
             else Inr ()))"
  using assms
  by (simp add: initDAQ_def get_daq_device_inventory_def get_ai_device_def get_ao_device_def
      Let_def split: option.splits)

lemma initDAQ_count_errors:
  "(fst (initDAQ self hw) = Inl (RuntimeError ''Error: No DAQ devices found'')
      \<longleftrightarrow> length (inventory hw) = 0)
   \<and> (fst (initDAQ self hw) = Inl (RuntimeError ''Error: More than one DAQ device found.'')
      \<longleftrightarrow> 1 < length (inventory hw))"
  by (simp add: initDAQ_def get_daq_device_inventory_def Let_def split: option.splits)

text \<open>
  C3. \<^verbatim>\<open>initDAQ\<close> raises the no-device error exactly when the inventory is empty and
  the more-than-one-device error exactly when it holds more than one descriptor. On a
  single device with both subsystems it raises a pacer error when the input pacer is
  missing, and when the input pacer is there and the output pacer is missing; with both
  pacers it raises the not-connected error when the device does not report a connection
  after \<^verbatim>\<open>connect\<close>, and returns normally when it does. All four failures are
  \<^verbatim>\<open>RuntimeError\<close>s, told apart by their messages.
\<close>

theorem initDAQ_outcomes:
  "(fst (initDAQ self hw) = Inl (RuntimeError ''Error: No DAQ devices found'')
      \<longleftrightarrow> length (inventory hw) = 0)
   \<and> (fst (initDAQ self hw) = Inl (RuntimeError ''Error: More than one DAQ device found.'')
      \<longleftrightarrow> 1 < length (inventory hw))
   \<and> (inventory hw = [d] \<and> ai_subsystem d = Some ai \<and> ao_subsystem d = Some ao \<longrightarrow>
        (\<not> ai_has_pacer (ai_get_info ai) \<longrightarrow>
           fst (initDAQ self hw) = Inl (RuntimeError (CHR 0x0A #
             ''Error: The specified DAQ device does not support hardware paced analog input'')))
      \<and> (ai_has_pacer (ai_get_info ai) \<and> \<not> ao_has_pacer (ao_get_info ao) \<longrightarrow>
           fst (initDAQ self hw) =
             Inl (RuntimeError ''Error: The DAQ device does not support paced analog output''))
      \<and> (ai_has_pacer (ai_get_info ai) \<and> ao_has_pacer (ao_get_info ao)
           \<and> \<not> is_connected (connect hw) \<longrightarrow>
           fst (initDAQ self hw) = Inl (RuntimeError ''Error: The DAQ device is not connected''))
      \<and> (ai_has_pacer (ai_get_info ai) \<and> ao_has_pacer (ao_get_info ao)
           \<and> is_connected (connect hw) \<longrightarrow>
           fst (initDAQ self hw) = Inr ()))"
proof (intro conjI impI)
  show "fst (initDAQ self hw) = Inl (RuntimeError ''Error: No DAQ devices found'')
      \<longleftrightarrow> length (inventory hw) = 0"
    using initDAQ_count_errors by blast
  show "fst (initDAQ self hw) = Inl (RuntimeError ''Error: More than one DAQ device found.'')
      \<longleftrightarrow> 1 < length (inventory hw)"
    using initDAQ_count_errors by blast
qed (simp_all add: initDAQ_single_device)

text \<open>
  C3, witness: an empty inventory, two devices, a device without input pacer, one without
  output pacer, a paced device whose link is down, and a paced device whose link is up.
\<close>

theorem initDAQ_outcomes_witness:
  "fst (initDAQ DAQ_attributes (bench [] True)) = Inl (RuntimeError ''Error: No DAQ devices found'')
   \<and> fst (initDAQ DAQ_attributes (bench [paced_device, paced_device] True)) =
       Inl (RuntimeError ''Error: More than one DAQ device found.'')
   \<and> fst (initDAQ DAQ_attributes (bench [unpaced_input_device] True)) =
       Inl (RuntimeError (CHR 0x0A #
         ''Error: The specified DAQ device does not support hardware paced analog input''))
   \<and> fst (initDAQ DAQ_attributes (bench [unpaced_output_device] True)) =
       Inl (RuntimeError ''Error: The DAQ device does not support paced analog output'')
   \<and> fst (initDAQ DAQ_attributes (bench [paced_device] False)) =
       Inl (RuntimeError ''Error: The DAQ device is not connected'')
   \<and> fst (initDAQ DAQ_attributes (bench [paced_device] True)) = Inr ()"
  using initDAQ_outcomes [of DAQ_attributes "bench [] True"]
    initDAQ_outcomes [of DAQ_attributes "bench [paced_device, paced_device] True"]
    initDAQ_outcomes [of DAQ_attributes "bench [unpaced_input_device] True" unpaced_input_device
      "AiDevice (AiInfo False)" "AoDevice (AoInfo True)"]
    initDAQ_outcomes [of DAQ_attributes "bench [unpaced_output_device] True" unpaced_output_device
      "AiDevice (AiInfo True)" "AoDevice (AoInfo False)"]
    initDAQ_outcomes [of DAQ_attributes "bench [paced_device] False" paced_device
      "AiDevice (AiInfo True)" "AoDevice (AoInfo True)"]
    initDAQ_outcomes [of DAQ_attributes "bench [paced_device] True" paced_device
      "AiDevice (AiInfo True)" "AoDevice (AoInfo True)"]
  by (simp add: bench_def paced_device_def unpaced_input_device_def unpaced_output_device_def
      connect_def is_connected_def)

section \<open>Polling\<close>

lemma start_input_thread_built:
  assumes "ai_device self = Some ai" "0 \<le> ai_samples_per_channel (analog_input_map self)"
  shows "start_input_thread self hw =
     (Inr (),
      self\<lparr>buffer_in := Some (replicate (nat (ai_samples_per_channel (analog_input_map self))) 0),
           actual_in_rate := ai_pacer_rate hw\<rparr>,
      hw\<lparr>ai_scan_status := RUNNING\<rparr>)"
  using assms
  by (simp add: start_input_thread_def create_float_buffer_def a_in_scan_def Let_def)

lemma scanning_state:
  "fst (start_input_thread daq_ready hw_ready) = Inr ()
   \<and> ai_device daq_scanning = Some (AiDevice (AiInfo True))
   \<and> status daq_scanning = IDLE
   \<and> ai_scan_status hw_scanning = RUNNING"
proof -
  have a: "ai_device daq_ready = Some (AiDevice (AiInfo True))"
    using daq_ready_devices by simp
  have "analog_input_map daq_ready = analog_input_map DAQ_attributes"
    by (simp add: daq_ready_def DAQ_init_def initDAQ_def bench_def paced_device_def
      get_daq_device_inventory_def get_ai_device_def get_ao_device_def connect_def
      is_connected_def Let_def)
  then have b: "0 \<le> ai_samples_per_channel (analog_input_map daq_ready)"
    by (simp add: DAQ_attributes_def)
  show ?thesis
    unfolding daq_scanning_def hw_scanning_def start_input_thread_built [OF a b]
    using daq_ready_devices by simp
qed

text \<open>
  The comparison of the status tuple with \<^verbatim>\<open>ScanStatus.RUNNING\<close> is never true, so
  a poll never answers \<^verbatim>\<open>True\<close>, whatever the hardware does.
\<close>

lemma poll_never_answers_True:
  "fst (check_input_thread self hw) \<noteq> Inr True \<and> fst (check_output_thread self hw) \<noteq> Inr True"
  by (cases "ai_device self"; cases "ao_device self")
     (simp_all add: check_input_thread_def check_output_thread_def ai_get_scan_status_def
        ao_get_scan_status_def)

lemma poll_while_running:
  "ai_scan_status hw_scanning = RUNNING
   \<and> check_input_thread daq_scanning hw_scanning = (Inr False, daq_scanning, hw_scanning)"
proof -
  have "ai_scan_error hw_scanning = False"
    using daq_ready_devices
    by (simp add: hw_scanning_def start_input_thread_def create_float_buffer_def a_in_scan_def
        Let_def hw_ready_eq bench_def DAQ_attributes_def daq_ready_def DAQ_init_def initDAQ_def
        paced_device_def get_daq_device_inventory_def get_ai_device_def get_ao_device_def
        connect_def is_connected_def)
  then show ?thesis
    using scanning_state by (simp add: check_input_thread_def ai_get_scan_status_def)
qed

text \<open>
  C9, as amended. A poll is a status read that changes nothing: it returns the controller
  and the hardware as it found them, so no fault state is entered or recorded. On a
  controller whose subsystem object is set, a hardware error comes out of the poll as the
  driver's exception, and without one the poll answers a truth value.
\<close>

theorem poll_changes_no_state:
  "snd (check_input_thread self hw) = (self, hw)
   \<and> snd (check_output_thread self hw) = (self, hw)
   \<and> (ai_device self = Some ai \<and> ai_scan_error hw \<longrightarrow>
        fst (check_input_thread self hw) = Inl ULException)
   \<and> (ao_device self = Some ao \<and> ao_scan_error hw \<longrightarrow>
        fst (check_output_thread self hw) = Inl ULException)
   \<and> (ai_device self = Some ai \<and> \<not> ai_scan_error hw \<longrightarrow>
        (\<exists>b. fst (check_input_thread self hw) = Inr b))
   \<and> (ao_device self = Some ao \<and> \<not> ao_scan_error hw \<longrightarrow>
        (\<exists>b. fst (check_output_thread self hw) = Inr b))"
  by (cases "ai_device self"; cases "ao_device self")
     (auto simp add: check_input_thread_def check_output_thread_def ai_get_scan_status_def
        ao_get_scan_status_def)

text \<open>
  C9, witness: the controller after a successful construction, polled with an error
  pending on the input and none on the output.
\<close>

theorem poll_changes_no_state_witness:
  "ai_device daq_ready = Some (AiDevice (AiInfo True))
   \<and> ao_device daq_ready = Some (AoDevice (AoInfo True))
   \<and> ai_scan_error (hw_ready\<lparr>ai_scan_error := True\<rparr>)
   \<and> ao_scan_error (hw_ready\<lparr>ai_scan_error := True\<rparr>) = False
   \<and> check_input_thread daq_ready (hw_ready\<lparr>ai_scan_error := True\<rparr>) =
        (Inl ULException, daq_ready, hw_ready\<lparr>ai_scan_error := True\<rparr>)
   \<and> snd (check_output_thread daq_ready (hw_ready\<lparr>ai_scan_error := True\<rparr>)) =
        (daq_ready, hw_ready\<lparr>ai_scan_error := True\<rparr>)
   \<and> (\<exists>b. fst (check_output_thread daq_ready (hw_ready\<lparr>ai_scan_error := True\<rparr>)) = Inr b)"
proof -
  have a: "ai_device daq_ready = Some (AiDevice (AiInfo True))"
    and b: "ao_device daq_ready = Some (AoDevice (AoInfo True))"
    using daq_ready_devices by simp_all
  have c: "ai_scan_error (hw_ready\<lparr>ai_scan_error := True\<rparr>)" by simp
  have d: "ao_scan_error (hw_ready\<lparr>ai_scan_error := True\<rparr>) = False"
    by (simp add: hw_ready_eq bench_def)
  from poll_changes_no_state [of daq_ready "hw_ready\<lparr>ai_scan_error := True\<rparr>"
      "AiDevice (AiInfo True)" "AoDevice (AoInfo True)"] a b c d
  show ?thesis by (simp add: prod_eq_iff)
qed

text \<open>
  C9, counterexample. The input scan has been started and the hardware runs it. When the
  hardware then reports an error, the poll raises the driver's exception and hands the
  controller back as it was: its \<^verbatim>\<open>status\<close> attribute is still \<^verbatim>\<open>IDLE\<close>, no
  attribute has changed, and no fault is recorded anywhere.
\<close>

theorem poll_enters_no_fault_state:
  "ai_scan_status hw_scanning = RUNNING
   \<and> check_input_thread daq_scanning (hw_scanning\<lparr>ai_scan_error := True\<rparr>) =
       (Inl ULException, daq_scanning, hw_scanning\<lparr>ai_scan_error := True\<rparr>)
   \<and> status daq_scanning = IDLE"
  using scanning_state
  by (simp add: check_input_thread_def ai_get_scan_status_def)

section \<open>Waveform generation\<close>

text \<open>
  C8. For every shape string other than \<^verbatim>\<open>sine\<close> and \<^verbatim>\<open>triangle\<close>,
  \<^verbatim>\<open>generate_waveform\<close> raises a \<^verbatim>\<open>ValueError\<close> and returns no samples,
  whatever the controller holds; there is no fallback shape. Whenever the configured sample
  count is not negative, the error is the one of the last branch, with the message
  ``Unsupported waveform type''. The method assigns nothing and calls no driver, so the
  model has no state to return.
\<close>

theorem unsupported_waveform_fails:
  assumes "waveform_type \<noteq> ''sine''" and "waveform_type \<noteq> ''triangle''"
  shows "(\<exists>msg. generate_waveform self waveform_type amplitude offset = Inl (ValueError msg))
       \<and> (0 \<le> ao_samples_per_channel (analog_output_map self) \<longrightarrow>
            generate_waveform self waveform_type amplitude offset =
              Inl (ValueError ''Unsupported waveform type''))"
  using assms by (auto simp add: generate_waveform_def linspace_def Let_def)

text \<open>C8, witness: the shape \<^verbatim>\<open>quadrature\<close> on the default configuration.\<close>

theorem unsupported_waveform_fails_witness:
  "''quadrature'' \<noteq> ''sine'' \<and> ''quadrature'' \<noteq> ''triangle''
   \<and> (0::int) \<le> ao_samples_per_channel (analog_output_map DAQ_attributes)
   \<and> generate_waveform DAQ_attributes ''quadrature'' 1 0 =
        Inl (ValueError ''Unsupported waveform type'')"
proof -
  have a: "''quadrature'' \<noteq> ''sine''" and b: "''quadrature'' \<noteq> ''triangle''" by simp_all
  have c: "(0::int) \<le> ao_samples_per_channel (analog_output_map DAQ_attributes)"
    by (simp add: DAQ_attributes_def)
  from unsupported_waveform_fails [OF a b, of DAQ_attributes 1 0] c
  show ?thesis by simp
qed

text \<open>
  C10. For a supported shape and a sample count that is not negative,
  \<^verbatim>\<open>generate_waveform\<close> returns a sequence whose length is the configured
  \<^verbatim>\<open>samples_per_channel\<close>. The buffer that \<^verbatim>\<open>start_output_thread\<close> creates has
  the same number of cells, so the copy is cell for cell, and \<^verbatim>\<open>buffer_out\<close> holds
  exactly the generated samples afterwards: nothing is cut off and no cell keeps its zero.
\<close>

theorem waveform_fills_output_buffer:
  assumes "waveform_type = ''sine'' \<or> waveform_type = ''triangle''"
      and "0 \<le> ao_samples_per_channel (analog_output_map self)"
  shows "\<exists>ws. generate_waveform self waveform_type amplitude offset = Inr ws
            \<and> int (length ws) = ao_samples_per_channel (analog_output_map self)
            \<and> create_float_buffer 1 (ao_samples_per_channel (analog_output_map self)) =
                Inr (replicate (length ws) 0)
            \<and> copyto (replicate (length ws) 0) ws = Inr ws
            \<and> (\<forall>hw. buffer_out (fst (snd (start_output_thread ws self hw))) = Some ws)"
  using assms
  by (auto simp add: generate_waveform_def linspace_def create_float_buffer_def copyto_def
      start_output_thread_def Let_def a_out_scan_def split: option.splits)

text \<open>C10, witness: the triangle of the default configuration, 10000 samples.\<close>

theorem waveform_fills_output_buffer_witness:
  "(''triangle'' = ''sine'' \<or> ''triangle'' = ''triangle'')
   \<and> (0::int) \<le> ao_samples_per_channel (analog_output_map DAQ_attributes)
   \<and> (\<exists>ws. generate_waveform DAQ_attributes ''triangle'' 1 0 = Inr ws
          \<and> length ws = 10000
          \<and> buffer_out (fst (snd (start_output_thread ws DAQ_attributes hw_ready))) = Some ws)"
proof -
  have a: "''triangle'' = ''sine'' \<or> ''triangle'' = ''triangle''" by simp
  have b: "(0::int) \<le> ao_samples_per_channel (analog_output_map DAQ_attributes)"
    by (simp add: DAQ_attributes_def)
  have c: "ao_samples_per_channel (analog_output_map DAQ_attributes) = 10000"
    by (simp add: DAQ_attributes_def)
  from waveform_fills_output_buffer [OF a b, of 1 0]
  obtain ws where "generate_waveform DAQ_attributes ''triangle'' 1 0 = Inr ws"
    and "int (length ws) = ao_samples_per_channel (analog_output_map DAQ_attributes)"
    and "\<forall>hw. buffer_out (fst (snd (start_output_thread ws DAQ_attributes hw))) = Some ws"
    by blast
  with c have "generate_waveform DAQ_attributes ''triangle'' 1 0 = Inr ws \<and> length ws = 10000
          \<and> buffer_out (fst (snd (start_output_thread ws DAQ_attributes hw_ready))) = Some ws"
    by simp
  then show ?thesis using a b by blast
qed

subsection \<open>The sine\<close>

text \<open>
  The sines of the phases \<open>k * (2 * pi / n)\<close> for \<open>k < n\<close> cancel in pairs: the
  phase of \<open>n - k\<close> is the one of \<open>k\<close> mirrored at \<open>2 * pi\<close>.
\<close>

lemma sin_cycle_sum:
  fixes m :: nat
  shows "(\<Sum>k<Suc m. sin (real k * (2 * pi / real (Suc m)))) = 0"
proof -
  let ?f = "\<lambda>k. sin (real k * (2 * pi / real (Suc m)))"
  let ?g = "\<lambda>j. ?f (Suc j)"
  have mirror: "?g (m - Suc j) = - ?g j" if "j < m" for j
  proof -
    have "real (Suc (m - Suc j)) * (2 * pi / real (Suc m))
            = 2 * pi - real (Suc j) * (2 * pi / real (Suc m))"
      using that by (simp add: field_simps of_nat_diff)
    then have "?g (m - Suc j) = sin (2 * pi - real (Suc j) * (2 * pi / real (Suc m)))"
      by simp
    also have "\<dots> = - ?g j"
      by (simp add: sin_diff)
    finally show ?thesis .
  qed
  have "sum ?g {..<m} = sum (\<lambda>j. ?g (m - Suc j)) {..<m}"
    by (rule sum.nat_diff_reindex [symmetric])
  also have "\<dots> = sum (\<lambda>j. - ?g j) {..<m}"
    by (rule sum.cong) (use mirror in auto)
  also have "\<dots> = - sum ?g {..<m}"
    by (simp add: sum_negf)
  finally have "sum ?g {..<m} = 0" by simp
  moreover have "sum ?f {..<Suc m} = ?f 0 + sum ?g {..<m}"
    by (rule sum.lessThan_Suc_shift)
  ultimately show ?thesis by simp
qed

lemma sum_list_sine_cycle:
  assumes "0 < n"
  shows "sum_list (map (\<lambda>k. A * sin (real k * (2 * pi / real n))) [0..<n]) = 0"
proof -
  obtain m where n: "n = Suc m" using assms by (cases n) auto
  have "sum_list (map (\<lambda>k. A * sin (real k * (2 * pi / real n))) [0..<n])
          = (\<Sum>k<n. A * sin (real k * (2 * pi / real n)))"
    by (simp add: interv_sum_list_conv_sum_set_nat atLeast0LessThan)
  also have "\<dots> = A * (\<Sum>k<n. sin (real k * (2 * pi / real n)))"
    by (simp add: sum_distrib_left)
  also have "\<dots> = 0"
    unfolding n using sin_cycle_sum [of m] by simp
  finally show ?thesis .
qed

lemma generate_sine:
  assumes "0 \<le> ao_samples_per_channel (analog_output_map self)"
  shows "generate_waveform self ''sine'' A off =
     Inr (map (\<lambda>k. A * sin (real k *
                 (2 * pi / real (nat (ao_samples_per_channel (analog_output_map self))))) + off)
            [0..<nat (ao_samples_per_channel (analog_output_map self))])"
  using assms by (simp add: generate_waveform_def linspace_def Let_def o_def)

lemma sin_three_half_pi: "sin (3 * pi / 2) = - 1"
  using sin_3over2_pi by (simp add: mult.commute)

lemma sine_of_four_samples:
  "generate_waveform (daq_with_samples 4) ''sine'' (-1) 0 = Inr [0, -1, 0, 1]"
  by (simp add: generate_waveform_def linspace_def daq_with_samples_def DAQ_attributes_def
      Let_def upt_rec sin_three_half_pi)

text \<open>
  C4, as amended. With a positive sample count \<open>n\<close> the sine has \<open>n\<close> samples, sample
  \<open>k\<close> is \<open>A * sin (2 * pi * k / n) + offset\<close> (the phases start at 0 and stop short
  of \<open>2 * pi\<close>), and with offset 0 the mean is 0 and no sample exceeds \<open>\<bar>A\<bar>\<close> in
  absolute value.
\<close>

theorem sine_samples:
  assumes "0 < ao_samples_per_channel (analog_output_map self)"
  shows "\<exists>ws. generate_waveform self ''sine'' A off = Inr ws
          \<and> int (length ws) = ao_samples_per_channel (analog_output_map self)
          \<and> (\<forall>k<length ws. ws ! k = A * sin (2 * pi * real k / real (length ws)) + off)
          \<and> (off = 0 \<longrightarrow> np_mean ws = Some 0 \<and> (\<forall>k<length ws. \<bar>ws ! k\<bar> \<le> \<bar>A\<bar>))"
proof -
  define n where "n = nat (ao_samples_per_channel (analog_output_map self))"
  define ws where "ws = map (\<lambda>k. A * sin (real k * (2 * pi / real n)) + off) [0..<n]"
  have n: "0 < n" using assms by (simp add: n_def)
  have gen: "generate_waveform self ''sine'' A off = Inr ws"
    using assms by (simp add: generate_sine ws_def n_def)
  have len: "length ws = n" by (simp add: ws_def)
  have len': "int (length ws) = ao_samples_per_channel (analog_output_map self)"
    using assms by (simp add: len n_def)
  have nth: "ws ! k = A * sin (2 * pi * real k / real (length ws)) + off" if "k < length ws" for k
    using that by (simp add: ws_def mult.commute)
  have mean: "np_mean ws = Some 0" if "off = 0"
  proof -
    have "ws \<noteq> []" using n len by auto
    moreover have "sum_list ws = 0"
      using sum_list_sine_cycle [OF n, of A] that by (simp add: ws_def)
    ultimately show ?thesis by (simp add: np_mean_def)
  qed
  have bound: "\<bar>ws ! k\<bar> \<le> \<bar>A\<bar>" if "off = 0" "k < length ws" for k
  proof -
    have "\<bar>ws ! k\<bar> = \<bar>A\<bar> * \<bar>sin (2 * pi * real k / real (length ws))\<bar>"
      using nth [OF that(2)] that(1) by (simp add: abs_mult)
    also have "\<dots> \<le> \<bar>A\<bar> * 1"
      by (intro mult_left_mono) simp_all
    finally show ?thesis by simp
  qed
  show ?thesis using gen len' nth mean bound by blast
qed

text \<open>C4, witness: four samples of amplitude \<open>-1\<close> and offset 0.\<close>

theorem sine_samples_witness:
  "(0::int) < ao_samples_per_channel (analog_output_map (daq_with_samples 4))
   \<and> generate_waveform (daq_with_samples 4) ''sine'' (-1) 0 = Inr [0, -1, 0, 1]
   \<and> np_mean [0, -1, 0, 1] = Some 0"
proof -
  have h: "(0::int) < ao_samples_per_channel (analog_output_map (daq_with_samples 4))"
    by (simp add: daq_with_samples_def)
  from sine_samples [OF h, of "-1" 0]
  obtain ws where "generate_waveform (daq_with_samples 4) ''sine'' (-1) 0 = Inr ws"
    and "np_mean ws = Some 0"
    by blast
  then show ?thesis using h sine_of_four_samples by simp
qed

text \<open>
  C4, counterexample. The claim bounds the samples by \<open>A\<close> for every amplitude. With
  amplitude \<open>-1\<close> and offset 0 the four-sample sine is \<open>0, -1, 0, 1\<close>, and on the
  default configuration the sample at index 2500 is \<open>-1\<close>: neither absolute value is
  at most \<open>-1\<close>.
\<close>

theorem sine_negative_amplitude:
  "generate_waveform (daq_with_samples 4) ''sine'' (-1) 0 = Inr [0, -1, 0, 1]
   \<and> \<not> \<bar>[0, -1, 0, 1 :: real] ! 1\<bar> \<le> -1
   \<and> (case generate_waveform DAQ_attributes ''sine'' (-1) 0 of
         Inl e \<Rightarrow> [] | Inr ws \<Rightarrow> [ws ! 0, ws ! 2500]) = [0, -1]
   \<and> \<not> \<bar>-1 :: real\<bar> \<le> -1"
  by (simp add: sine_of_four_samples)
    (simp add: generate_waveform_def linspace_def DAQ_attributes_def Let_def)

subsection \<open>The triangle\<close>

lemma generate_triangle:
  assumes "0 \<le> ao_samples_per_channel (analog_output_map self)"
  shows "generate_waveform self ''triangle'' A off =
     Inr (map (\<lambda>k. A * 2 *
                 (real k * (2 * pi / real (nat (ao_samples_per_channel (analog_output_map self)))) / pi
                  - of_int \<lfloor>real k * (2 * pi / real (nat (ao_samples_per_channel
                                (analog_output_map self)))) / pi + 0.5\<rfloor>) + off)
            [0..<nat (ao_samples_per_channel (analog_output_map self))])"
  using assms by (simp add: generate_waveform_def linspace_def Let_def o_def)

lemma sawtooth_range:
  fixes x :: real
  shows "- (1/2) \<le> x - of_int \<lfloor>x + 1/2\<rfloor>" and "x - of_int \<lfloor>x + 1/2\<rfloor> < 1/2"
  by linarith+

text \<open>Sample \<open>k\<close> of the shape named triangle, with the phase divided by \<open>pi\<close>.\<close>

lemma triangle_sample:
  assumes "generate_waveform self ''triangle'' A off = Inr ws" and "k < length ws"
  shows "ws ! k = 2 * A * (2 * real k / real (length ws)
                    - of_int \<lfloor>2 * real k / real (length ws) + 1/2\<rfloor>) + off"
proof -
  define n where "n = nat (ao_samples_per_channel (analog_output_map self))"
  have nonneg: "0 \<le> ao_samples_per_channel (analog_output_map self)"
    using assms(1) by (auto simp add: generate_waveform_def linspace_def Let_def split: if_splits)
  have ws: "ws = map (\<lambda>k. A * 2 * (real k * (2 * pi / real n) / pi
                   - of_int \<lfloor>real k * (2 * pi / real n) / pi + 0.5\<rfloor>) + off) [0..<n]"
    using assms(1) generate_triangle [OF nonneg, of A off] by (simp add: n_def)
  have len: "length ws = n" by (simp add: ws)
  have "real k * (2 * pi / real n) / pi = 2 * real k / real n"
    by simp
  then show ?thesis using assms(2) len by (simp add: ws mult.commute)
qed

text \<open>With a positive amplitude every sample stays strictly below \<open>A + offset\<close>.\<close>

lemma triangle_below_peak:
  assumes "generate_waveform self ''triangle'' A off = Inr ws" and "k < length ws" and "0 < A"
  shows "ws ! k < A + off"
proof -
  let ?x = "2 * real k / real (length ws)"
  have "?x - of_int \<lfloor>?x + 1/2\<rfloor> < 1/2" by (rule sawtooth_range)
  then have "2 * A * (?x - of_int \<lfloor>?x + 1/2\<rfloor>) < 2 * A * (1/2)"
    using assms(3) by (intro mult_strict_left_mono) simp_all
  then show ?thesis using triangle_sample [OF assms(1,2)] by simp
qed

text \<open>With an even sample count the second half of the samples repeats the first.\<close>

lemma triangle_half_period:
  assumes "generate_waveform self ''triangle'' A off = Inr ws"
      and "length ws = 2 * h" and "k < h"
  shows "ws ! (k + h) = ws ! k"
proof -
  have h: "0 < h" using assms(3) by simp
  have a: "2 * real (k + h) / real (length ws) = 2 * real k / real (length ws) + 1"
    using h by (simp add: assms(2) field_simps)
  have "\<lfloor>2 * real k / real (length ws) + 1 + 1/2\<rfloor> = \<lfloor>2 * real k / real (length ws) + 1/2\<rfloor> + 1"
    by linarith
  then have b: "2 * real (k + h) / real (length ws)
                  - of_int \<lfloor>2 * real (k + h) / real (length ws) + 1/2\<rfloor>
      = 2 * real k / real (length ws) - of_int \<lfloor>2 * real k / real (length ws) + 1/2\<rfloor>"
    unfolding a by simp
  have "k + h < length ws" "k < length ws" using assms(2,3) by simp_all
  then show ?thesis
    using triangle_sample [OF assms(1)] b by simp
qed

lemma triangle_of_eight_samples:
  "generate_waveform (daq_with_samples 8) ''triangle'' 1 0 =
     Inr [0, 1/2, -1, -1/2, 0, 1/2, -1, -1/2]"
  by (simp add: generate_waveform_def linspace_def daq_with_samples_def DAQ_attributes_def
      Let_def upt_rec)

text \<open>
  C2. The triangle is claimed to have period \<open>2 * pi\<close>, one rising and one falling
  linear segment per cycle, and to attain the peak \<open>A + offset\<close>. With amplitude 1 and
  offset 0, eight samples are \<open>0, 1/2, -1, -1/2, 0, 1/2, -1, -1/2\<close>: the values rise by
  \<open>1/2\<close> from sample to sample, drop from \<open>1/2\<close> to \<open>-1\<close> in one step, repeat after
  four samples (half of the cycle), and never reach 1. The default configuration, as
  \<^verbatim>\<open>main\<close> calls it, gives the same picture: the samples rise to 0.9996 at index
  2499, drop to \<open>-1\<close> at index 2500, and the samples from index 5000 on repeat those from
  index 0 on.
\<close>

theorem triangle_is_sawtooth:
  "generate_waveform (daq_with_samples 8) ''triangle'' 1 0 =
     Inr [0, 1/2, -1, -1/2, 0, 1/2, -1, -1/2]
   \<and> (case generate_waveform DAQ_attributes ''triangle'' 1 0 of
         Inl e \<Rightarrow> []
       | Inr ws \<Rightarrow> [ws ! 0, ws ! 2499, ws ! 2500, ws ! 4999,
                   ws ! 5000, ws ! 7499, ws ! 7500, ws ! 9999])
       = [0, 0.9996, -1, -0.0004, 0, 0.9996, -1, -0.0004]"
proof -
  have "(case generate_waveform DAQ_attributes ''triangle'' 1 0 of
           Inl e \<Rightarrow> []
         | Inr ws \<Rightarrow> [ws ! 0, ws ! 2499, ws ! 2500, ws ! 4999,
                     ws ! 5000, ws ! 7499, ws ! 7500, ws ! 9999])
         = [0, 0.9996, -1, -0.0004, 0, 0.9996, -1, -0.0004]"
    by (simp add: generate_waveform_def linspace_def DAQ_attributes_def Let_def)
  then show ?thesis
    using triangle_of_eight_samples by simp
qed

section \<open>Filter design and application\<close>

text \<open>
  C5. For a positive sampling rate each design function hands the library routine the
  requested order, the cutoff divided by the Nyquist frequency \<open>fs / 2\<close>, its family and
  the digital flag; the band-pass divides each of its two edges on its own.
\<close>

theorem design_normalizes_by_nyquist:
  assumes "0 < fs"
  shows "butter_lowpass butter cutoff fs order =
           butter order (Scalar (nyquist_normalized cutoff fs)) ''low'' False
       \<and> butter_highpass butter cutoff fs order =
           butter order (Scalar (nyquist_normalized cutoff fs)) ''high'' False
       \<and> butter_bandpass butter lowcut highcut fs order =
           butter order (Band (nyquist_normalized lowcut fs) (nyquist_normalized highcut fs))
             ''band'' False"
  using assms
  by (simp add: butter_lowpass_def butter_highpass_def butter_bandpass_def
      nyquist_normalized_def Let_def)

text \<open>C5, witness: cutoffs of 100 and 200 at a sampling rate of 1000, order 5.\<close>

theorem design_normalizes_by_nyquist_witness:
  "(0::real) < 1000
   \<and> butter_lowpass butter_strict 100 1000 5 = butter_strict 5 (Scalar (1/5)) ''low'' False
   \<and> butter_highpass butter_strict 100 1000 5 = butter_strict 5 (Scalar (1/5)) ''high'' False
   \<and> butter_bandpass butter_strict 100 200 1000 5 =
       butter_strict 5 (Band (1/5) (2/5)) ''band'' False"
proof -
  have h: "(0::real) < 1000" by simp
  from design_normalizes_by_nyquist [OF h, of butter_strict 100 5 100 200] h
  show ?thesis by (simp add: nyquist_normalized_def)
qed

text \<open>
  C6. Each convenience filter is its design followed by the application of the designed
  coefficients: an error of the design is the result, and otherwise the result is what
  \<^verbatim>\<open>apply_filter\<close> gives on the coefficients and the buffer.
\<close>

theorem filters_are_design_then_apply:
  "lowpass_filter butter filtfilt cutoff samples fs order =
     design_then_apply (butter_lowpass butter cutoff fs order) filtfilt samples
   \<and> highpass_filter butter filtfilt cutoff samples fs order =
     design_then_apply (butter_highpass butter cutoff fs order) filtfilt samples
   \<and> bandpass_filter butter filtfilt lowcut highcut samples fs order =
     design_then_apply (butter_bandpass butter lowcut highcut fs order) filtfilt samples"
  by (simp add: lowpass_filter_def highpass_filter_def bandpass_filter_def
      design_then_apply_def split: sum.splits prod.splits)

text \<open>
  C7, as amended. The design functions check nothing themselves. With a sampling rate of
  zero the division raises; otherwise they fail exactly when the library routine refuses
  the order and the normalised cutoffs, and with its error. What they return depends on
  the cutoffs and the sampling rate through their ratio alone.
\<close>

theorem design_checks_nothing_itself:
  "(fs = 0 \<longrightarrow>
      butter_lowpass butter cutoff fs order = Inl ZeroDivisionError
      \<and> butter_highpass butter cutoff fs order = Inl ZeroDivisionError
      \<and> butter_bandpass butter lowcut highcut fs order = Inl ZeroDivisionError)
   \<and> (fs \<noteq> 0 \<longrightarrow>
      (\<forall>e. butter_lowpass butter cutoff fs order = Inl e
            \<longleftrightarrow> butter order (Scalar (cutoff / (0.5 * fs))) ''low'' False = Inl e)
      \<and> (\<forall>e. butter_highpass butter cutoff fs order = Inl e
            \<longleftrightarrow> butter order (Scalar (cutoff / (0.5 * fs))) ''high'' False = Inl e)
      \<and> (\<forall>e. butter_bandpass butter lowcut highcut fs order = Inl e
            \<longleftrightarrow> butter order (Band (lowcut / (0.5 * fs)) (highcut / (0.5 * fs))) ''band'' False
                  = Inl e))
   \<and> (k \<noteq> 0 \<longrightarrow>
      butter_lowpass butter (k * cutoff) (k * fs) order = butter_lowpass butter cutoff fs order
      \<and> butter_highpass butter (k * cutoff) (k * fs) order
          = butter_highpass butter cutoff fs order
      \<and> butter_bandpass butter (k * lowcut) (k * highcut) (k * fs) order
          = butter_bandpass butter lowcut highcut fs order)"
  by (simp add: butter_lowpass_def butter_highpass_def butter_bandpass_def Let_def)

text \<open>
  C7, witness: a cutoff above the Nyquist frequency, refused by the routine; a cutoff and a
  sampling rate scaled by \<open>-1\<close>; a sampling rate of zero.
\<close>

theorem design_checks_nothing_itself_witness:
  "(1000::real) \<noteq> 0 \<and> (-1::real) \<noteq> 0
   \<and> butter_lowpass butter_strict 600 1000 5 =
       Inl (ValueError ''Digital filter critical frequencies must be 0 < Wn < 1'')
   \<and> butter_lowpass butter_strict (-1 * 100) (-1 * 1000) 5 = butter_lowpass butter_strict 100 1000 5
   \<and> butter_lowpass butter_strict 100 0 5 = Inl ZeroDivisionError"
  using design_checks_nothing_itself [of 1000 butter_strict 600 5 600 700 "-1"]
    design_checks_nothing_itself [of 1000 butter_strict 100 5 100 200 "-1"]
    design_checks_nothing_itself [of 0 butter_strict 100 5 100 200 "-1"]
  by (simp add: butter_strict_def)

text \<open>
  C7, counterexample. A negative cutoff violates the precondition, and so does every
  cutoff next to a negative Nyquist frequency. With a sampling rate of \<open>-1000\<close> the
  cutoffs \<open>-100\<close> and \<open>-200\<close> normalise to \<open>1/5\<close> and \<open>2/5\<close>, which even the strictest
  design routine accepts, so all three design functions return coefficients.
\<close>

theorem design_accepts_violating_input:
  "(-100::real) \<le> 0
   \<and> butter_lowpass butter_strict (-100) (-1000) 5 = Inr ([1], [1])
   \<and> butter_highpass butter_strict (-100) (-1000) 5 = Inr ([1], [1])
   \<and> butter_bandpass butter_strict (-100) (-200) (-1000) 5 = Inr ([1], [1])"
  by (simp add: butter_lowpass_def butter_highpass_def butter_bandpass_def butter_strict_def
      Let_def)

end
